theory Spec2Isabelle
  imports Complex_Main
begin

section \<open>Strings\<close>

text \<open>
  A Python \<^verbatim>\<open>str\<close> is modelled as a \<^typ>\<open>string\<close> whose characters are the code points
  below 256.  \<^verbatim>\<open>str.strip()\<close> removes the characters for which \<^verbatim>\<open>str.isspace\<close> holds
  (9-13, 28-32, 133 and 160 in that range) from both ends; \<^verbatim>\<open>str.lower()\<close> moves the
  upper-case letters of that range (A-Z, and 192-222 except 215) down by 32.
\<close>

definition is_space :: "char \<Rightarrow> bool" where
  "is_space c = (let n = (of_char c :: int) in
     (9 \<le> n \<and> n \<le> 13) \<or> (28 \<le> n \<and> n \<le> 32) \<or> n = 133 \<or> n = 160)"

definition strip :: "string \<Rightarrow> string" where
  "strip s = rev (dropWhile is_space (rev (dropWhile is_space s)))"

definition lower_char :: "char \<Rightarrow> char" where
  "lower_char c = (let n = (of_char c :: int) in
     if (65 \<le> n \<and> n \<le> 90) \<or> (192 \<le> n \<and> n \<le> 214) \<or> (216 \<le> n \<and> n \<le> 222)
     then char_of (n + 32) else c)"

definition lower :: "string \<Rightarrow> string" where
  "lower s = map lower_char s"

text \<open>A string has no leading or trailing whitespace.\<close>

definition no_outer_space :: "string \<Rightarrow> bool" where
  "no_outer_space s = (s = [] \<or> (\<not> is_space (hd s) \<and> \<not> is_space (last s)))"

section \<open>Floats\<close>

text \<open>
  A Python \<^verbatim>\<open>float\<close> is a finite value, a signed infinity or a NaN.  A finite value is
  carried as the rational number it denotes, and the negative zero is kept apart from
  the positive one (\<open>Fin 0\<close>), because \<^verbatim>\<open>%g\<close> prints them differently.  The rounding of
  binary64 arithmetic is not modelled: no operation of the program computes with its
  floats, it only compares and prints them.  The comparisons are those of IEEE 754:
  every ordered comparison and every equality with a NaN is false, and the two zeros
  are equal.
\<close>

datatype pyfloat = Fin rat | NegZero | PInf | NInf | NaN

fun is_nan :: "pyfloat \<Rightarrow> bool" where
  "is_nan NaN = True"
| "is_nan _ = False"

fun rank :: "pyfloat \<Rightarrow> nat" where
  "rank NInf = 0"
| "rank PInf = 2"
| "rank _ = 1"

fun fin :: "pyfloat \<Rightarrow> rat" where
  "fin (Fin q) = q"
| "fin _ = 0"

definition fle :: "pyfloat \<Rightarrow> pyfloat \<Rightarrow> bool" where
  "fle a b = (\<not> is_nan a \<and> \<not> is_nan b \<and>
     (rank a < rank b \<or> (rank a = rank b \<and> fin a \<le> fin b)))"


definition feq :: "pyfloat \<Rightarrow> pyfloat \<Rightarrow> bool" where
  "feq a b = (\<not> is_nan a \<and> \<not> is_nan b \<and> rank a = rank b \<and> fin a = fin b)"

subsection \<open>The format code \<^verbatim>\<open>g\<close>\<close>

text \<open>
  \<^verbatim>\<open>format(x, 'g')\<close> rounds \<open>x\<close> to six significant decimal digits (ties to even;
  \<open>n\<close> below is that six-digit number), prints it in fixed notation when the decimal
  exponent \<open>e\<close> of the rounded value satisfies \<open>-4 \<le> e < 6\<close> and in exponent notation otherwise, and drops the trailing
  zeros of the fraction (and the point, when nothing follows it).  \<open>str_nat\<close> is the
  decimal numeral of a non-negative integer.
\<close>

definition digit_char :: "int \<Rightarrow> char" where
  "digit_char d = char_of (48 + d)"

function str_nat :: "int \<Rightarrow> string" where
  "str_nat n = (if n < 10 then [digit_char n] else str_nat (n div 10) @ [digit_char (n mod 10)])"
  by pat_completeness auto
termination
  by (relation "measure nat") auto

declare str_nat.simps [simp del]

function ndigits :: "int \<Rightarrow> int" where
  "ndigits n = (if n < 10 then 1 else 1 + ndigits (n div 10))"
  by pat_completeness auto
termination
  by (relation "measure nat") auto

declare ndigits.simps [simp del]

definition pow10 :: "int \<Rightarrow> rat" where
  "pow10 k = (if 0 \<le> k then 10 ^ nat k else 1 / 10 ^ nat (- k))"

definition dec_exp :: "rat \<Rightarrow> int" where
  "dec_exp q = (let (a, b) = quotient_of q;
                    k = ndigits a - ndigits b
                in if pow10 k \<le> q then k else k - 1)"

definition round_half_even :: "rat \<Rightarrow> int" where
  "round_half_even x = (let f = \<lfloor>x\<rfloor>; d = x - of_int f in
     if d < 1 / 2 then f else if 1 / 2 < d then f + 1 else if even f then f else f + 1)"

definition strip_zeros :: "string \<Rightarrow> string" where
  "strip_zeros s = rev (dropWhile (\<lambda>c. c = CHR ''0'') (rev s))"

definition with_point :: "string \<Rightarrow> string \<Rightarrow> string" where
  "with_point ip fp = ip @ (if fp = [] then [] else CHR ''.'' # fp)"

definition exp_digits :: "int \<Rightarrow> string" where
  "exp_digits m = (if m < 10 then CHR ''0'' # str_nat m else str_nat m)"

definition fmt_g_pos :: "rat \<Rightarrow> string" where
  "fmt_g_pos q =
     (let e0 = dec_exp q;
          n0 = round_half_even (q * pow10 (5 - e0));
          n = (if 10 ^ 6 \<le> n0 then 10 ^ 5 else n0);
          e = (if 10 ^ 6 \<le> n0 then e0 + 1 else e0);
          ds = str_nat n
      in if - 4 \<le> e \<and> e < 6 then
           (if 0 \<le> e then with_point (take (nat e + 1) ds) (strip_zeros (drop (nat e + 1) ds))
            else ''0.'' @ replicate (nat (- e - 1)) CHR ''0'' @ strip_zeros ds)
         else with_point (take 1 ds) (strip_zeros (drop 1 ds)) @ ''e''
              @ (if e < 0 then ''-'' else ''+'') @ exp_digits \<bar>e\<bar>)"

fun fmt_g :: "pyfloat \<Rightarrow> string" where
  "fmt_g NaN = ''nan''"
| "fmt_g PInf = ''inf''"
| "fmt_g NInf = ''-inf''"
| "fmt_g NegZero = ''-0''"
| "fmt_g (Fin q) = (if q = 0 then ''0'' else if q < 0 then CHR ''-'' # fmt_g_pos (- q)
                    else fmt_g_pos q)"

text \<open>
  The characters of the texts that the format code \<^verbatim>\<open>g\<close> prints: the digits, the point, the
  exponent mark, the signs and the letters of \<^verbatim>\<open>inf\<close> and \<^verbatim>\<open>nan\<close>.
\<close>

definition plain :: "string \<Rightarrow> bool" where
  "plain t = list_all (\<lambda>c. c \<in> set ''0123456789.e+-infa'') t"

subsection \<open>Rounding to binary64\<close>

text \<open>
  Where the program makes a float from a decimal text or from an integer, the value is
  rounded to the nearest binary64 number, ties to even: a number \<open>q > 0\<close> with
  \<open>2 ^ e \<le> q < 2 ^ (e + 1)\<close> goes to the nearest multiple of \<open>2 ^ (e - 52)\<close>, where \<open>e\<close> is not
  taken below \<open>-1022\<close> (the subnormal numbers).  A result of \<open>2 ^ 1024\<close> or more is out of
  range.  \<open>bitlen\<close> is the number of binary digits of a positive integer.
\<close>

function bitlen :: "int \<Rightarrow> int" where
  "bitlen n = (if n < 2 then 1 else 1 + bitlen (n div 2))"
  by pat_completeness auto
termination
  by (relation "measure nat") auto

declare bitlen.simps [simp del]

definition pow2 :: "int \<Rightarrow> rat" where
  "pow2 k = (if 0 \<le> k then 2 ^ nat k else 1 / 2 ^ nat (- k))"

definition bin_exp :: "rat \<Rightarrow> int" where
  "bin_exp q = (let (a, b) = quotient_of q;
                    k = bitlen a - bitlen b
                in if pow2 k \<le> q then k else k - 1)"

definition round_binary64 :: "rat \<Rightarrow> rat" where
  "round_binary64 q = (let e = max (bin_exp q) (- 1022);
                           u = pow2 (e - 52)
                       in of_int (round_half_even (q / u)) * u)"

text \<open>\<open>2 ^ 1024 \<le> v\<close>, for \<open>v \<ge> 0\<close>.\<close>

definition out_of_range :: "rat \<Rightarrow> bool" where
  "out_of_range v = (0 < v \<and> 1024 \<le> bin_exp v)"

section \<open>Exceptions\<close>

text \<open>
  A function that can raise returns a sum: \<open>Inl\<close> carries the exception, \<open>Inr\<close> the result.
  \<open>ValueError m\<close> is a \<^verbatim>\<open>ValueError\<close> that the program raises itself, with its message.
  \<open>BuiltinError\<close> is an exception raised inside a built-in operation: the \<^verbatim>\<open>KeyError\<close> of
  \<^verbatim>\<open>d[k]\<close>, the \<^verbatim>\<open>ValueError\<close>, \<^verbatim>\<open>TypeError\<close> or \<^verbatim>\<open>OverflowError\<close> of \<^verbatim>\<open>int()\<close> and \<^verbatim>\<open>float()\<close>, the
  \<^verbatim>\<open>AttributeError\<close> of a method that the value does not have, the \<^verbatim>\<open>TypeError\<close> of a
  comparison or of a call.  The program never tells these apart: every handler it has
  is \<^verbatim>\<open>except Exception\<close>.
\<close>

datatype exn = ValueError string | BuiltinError

section \<open>Models\<close>

record RangeSpec =
  rs_min :: pyfloat
  rs_max :: pyfloat
  rs_unit :: string

definition RangeSpec_normalized :: "RangeSpec \<Rightarrow> RangeSpec" where
  "RangeSpec_normalized r =
     (let (lo, hi) = (if fle (rs_min r) (rs_max r) then (rs_min r, rs_max r)
                      else (rs_max r, rs_min r))
      in \<lparr>rs_min = lo, rs_max = hi, rs_unit = strip (rs_unit r)\<rparr>)"

definition RangeSpec_fmt :: "RangeSpec \<Rightarrow> string" where
  "RangeSpec_fmt r0 =
     (let r = RangeSpec_normalized r0 in
      if feq (rs_min r) (rs_max r) then fmt_g (rs_min r) @ rs_unit r
      else fmt_g (rs_min r) @ ''-'' @ fmt_g (rs_max r) @ rs_unit r)"

definition RangeSpec_key :: "RangeSpec \<Rightarrow> string" where
  "RangeSpec_key r0 =
     (let r = RangeSpec_normalized r0 in
      lower (fmt_g (rs_min r) @ ''-'' @ fmt_g (rs_max r) @ rs_unit r))"

record Part =
  category :: string
  name :: string
  voltage :: RangeSpec
  current :: RangeSpec
  quantity :: int
  p_notes :: string

definition Part_normalized :: "Part \<Rightarrow> Part" where
  "Part_normalized p =
     \<lparr>category = strip (category p),
      name = strip (name p),
      voltage = RangeSpec_normalized (voltage p),
      current = RangeSpec_normalized (current p),
      quantity = quantity p,
      p_notes = strip (p_notes p)\<rparr>"

definition dedupe_key :: "Part \<Rightarrow> string \<times> string \<times> string \<times> string" where
  "dedupe_key p0 =
     (let p = Part_normalized p0 in
      (lower (category p), lower (name p), RangeSpec_key (voltage p), RangeSpec_key (current p)))"

section \<open>Decoded JSON\<close>

text \<open>
  The values that \<^verbatim>\<open>json.loads\<close> builds.  A \<^verbatim>\<open>dict\<close> keeps its entries in insertion order,
  so it is an association list; \<open>dict_set\<close> is \<^verbatim>\<open>d[k] = v\<close>, which replaces the value of an
  existing key in place and appends a new key at the end.
\<close>

datatype json =
    JNull
  | JBool bool
  | JInt int
  | JFloat pyfloat
  | JStr string
  | JList "json list"
  | JDict "(string \<times> json) list"

type_synonym dict = "(string \<times> json) list"

fun dict_set :: "dict \<Rightarrow> string \<Rightarrow> json \<Rightarrow> dict" where
  "dict_set [] k v = [(k, v)]"
| "dict_set ((k', v') # d) k v = (if k' = k then (k, v) # d else (k', v') # dict_set d k v)"

text \<open>\<^verbatim>\<open>d.get(k, default)\<close> on a dict.\<close>

definition dict_get :: "dict \<Rightarrow> string \<Rightarrow> json \<Rightarrow> json" where
  "dict_get d k dflt = (case map_of d k of None \<Rightarrow> dflt | Some v \<Rightarrow> v)"

text \<open>\<^verbatim>\<open>d[k]\<close> on a dict raises \<^verbatim>\<open>KeyError\<close> for a missing key.\<close>

definition dict_item :: "dict \<Rightarrow> string \<Rightarrow> exn + json" where
  "dict_item d k = (case map_of d k of None \<Rightarrow> Inl BuiltinError | Some v \<Rightarrow> Inr v)"

text \<open>
  \<^verbatim>\<open>x.get(k, default)\<close> on any decoded value: only a dict has the method, every other value
  raises \<^verbatim>\<open>AttributeError\<close>.
\<close>

fun json_get :: "json \<Rightarrow> string \<Rightarrow> json \<Rightarrow> exn + json" where
  "json_get (JDict d) k dflt = Inr (dict_get d k dflt)"
| "json_get _ k dflt = Inl BuiltinError"

subsection \<open>The built-in conversions\<close>

text \<open>
  \<^verbatim>\<open>int(s)\<close> and \<^verbatim>\<open>float(s)\<close> skip whitespace at both ends of a string, but less than
  \<^verbatim>\<open>str.strip()\<close> removes: the ASCII whitespace 9-13 and 32, and the whitespace above 127
  (133 and 160), which they first replace by a space.  The separators 28-31 are not
  skipped, and a string that starts or ends with one is rejected.
\<close>

definition is_num_space :: "char \<Rightarrow> bool" where
  "is_num_space c = (let n = (of_char c :: int) in
     (9 \<le> n \<and> n \<le> 13) \<or> n = 32 \<or> n = 133 \<or> n = 160)"

definition num_strip :: "string \<Rightarrow> string" where
  "num_strip s = rev (dropWhile is_num_space (rev (dropWhile is_num_space s)))"

definition is_digit :: "char \<Rightarrow> bool" where
  "is_digit c = (let n = (of_char c :: int) in 48 \<le> n \<and> n \<le> 57)"

definition digit_val :: "char \<Rightarrow> int" where
  "digit_val c = of_char c - 48"

text \<open>
  A \<^verbatim>\<open>digitpart\<close> of the Python grammar: digits, with single underscores allowed between
  two digits.  \<open>digits_acc\<close> reads the rest of one after a digit, with the value so far.
\<close>

fun digits_acc :: "int \<Rightarrow> string \<Rightarrow> int option" where
  "digits_acc a [] = Some a"
| "digits_acc a [c] = (if is_digit c then Some (10 * a + digit_val c) else None)"
| "digits_acc a (c # d # cs) =
     (if is_digit c then digits_acc (10 * a + digit_val c) (d # cs)
      else if c = CHR ''_'' \<and> is_digit d then digits_acc (10 * a + digit_val d) cs
      else None)"

definition digitpart :: "string \<Rightarrow> int option" where
  "digitpart s = (case s of [] \<Rightarrow> None
                  | c # cs \<Rightarrow> if is_digit c then digits_acc (digit_val c) cs else None)"

text \<open>An optional sign in front: the sign and the rest.\<close>

definition split_sign :: "string \<Rightarrow> bool \<times> string" where
  "split_sign s = (case s of [] \<Rightarrow> (False, [])
                   | c # cs \<Rightarrow> if c = CHR ''-'' then (True, cs)
                              else if c = CHR ''+'' then (False, cs) else (False, s))"

text \<open>
  \<^verbatim>\<open>int(s)\<close> for a string: surrounding whitespace, a sign, a \<^verbatim>\<open>digitpart\<close>.  A string with
  more than 4300 digits is rejected with a \<^verbatim>\<open>ValueError\<close> (the default limit of the
  interpreter on the conversion of decimal strings).
\<close>

fun count_digits :: "string \<Rightarrow> int" where
  "count_digits [] = 0"
| "count_digits (c # cs) = (if is_digit c then 1 else 0) + count_digits cs"

definition int_of_str :: "string \<Rightarrow> exn + int" where
  "int_of_str s =
     (let (neg, body) = split_sign (num_strip s) in
      case digitpart body of None \<Rightarrow> Inl BuiltinError
      | Some n \<Rightarrow> if 4300 < count_digits body then Inl BuiltinError
                  else Inr (if neg then - n else n))"

text \<open>
  \<^verbatim>\<open>int(x)\<close> for a decoded value: an integer is itself, a boolean is 0 or 1, a float is
  truncated towards zero (a NaN raises \<^verbatim>\<open>ValueError\<close>, an infinity \<^verbatim>\<open>OverflowError\<close>), a
  string is parsed; \<^verbatim>\<open>None\<close>, a list and a dict raise \<^verbatim>\<open>TypeError\<close>.
\<close>

fun py_int :: "json \<Rightarrow> exn + int" where
  "py_int (JInt n) = Inr n"
| "py_int (JBool b) = Inr (if b then 1 else 0)"
| "py_int (JFloat (Fin q)) = Inr (if 0 \<le> q then \<lfloor>q\<rfloor> else \<lceil>q\<rceil>)"
| "py_int (JFloat NegZero) = Inr 0"
| "py_int (JFloat _) = Inl BuiltinError"
| "py_int (JStr s) = int_of_str s"
| "py_int _ = Inl BuiltinError"

text \<open>\<^verbatim>\<open>int(x.get(k, default))\<close>, as the id and quantity of a stored record are read.\<close>

definition read_int :: "json \<Rightarrow> string \<Rightarrow> int \<Rightarrow> exn + int" where
  "read_int x k dflt = (case json_get x k (JInt dflt) of Inl e \<Rightarrow> Inl e | Inr v \<Rightarrow> py_int v)"

text \<open>\<^verbatim>\<open>s.split(c, 1)\<close> for a string that contains \<open>c\<close>: the text before the first \<open>c\<close> and the
  text after it.\<close>

definition split_first :: "char \<Rightarrow> string \<Rightarrow> string \<times> string" where
  "split_first c s = (takeWhile (\<lambda>x. x \<noteq> c) s, drop 1 (dropWhile (\<lambda>x. x \<noteq> c) s))"

text \<open>
  \<^verbatim>\<open>float(s)\<close> for a string: surrounding whitespace, a sign, then \<^verbatim>\<open>inf\<close>, \<^verbatim>\<open>infinity\<close>,
  \<^verbatim>\<open>nan\<close> (in any case) or a decimal number: digits with an optional point and an
  optional exponent, with at least one digit before or after the point.  The value of
  the decimal number is rounded to binary64: beyond the range it is an infinity, and a
  value that rounds to zero is the zero of its sign.
\<close>

definition mantissa :: "string \<Rightarrow> rat option" where
  "mantissa s =
     (if CHR ''.'' \<in> set s then
        (let (ip, fp) = split_first CHR ''.'' s in
         if ip = [] \<and> fp = [] then None
         else case (if ip = [] then Some 0 else digitpart ip,
                    if fp = [] then Some 0 else digitpart fp) of
                (Some i, Some f) \<Rightarrow>
                   Some (of_int i + of_int f * pow10 (- int (length (filter is_digit fp))))
              | _ \<Rightarrow> None)
      else map_option of_int (digitpart s))"

definition exponent :: "string \<Rightarrow> int option" where
  "exponent s = (let (neg, body) = split_sign s in
                 map_option (\<lambda>n. if neg then - n else n) (digitpart body))"

definition decimal :: "string \<Rightarrow> rat option" where
  "decimal s =
     (if CHR ''e'' \<in> set s then
        (let (m, e) = split_first CHR ''e'' s in
         case (mantissa m, exponent e) of
           (Some q, Some k) \<Rightarrow> Some (q * pow10 k)
         | _ \<Rightarrow> None)
      else mantissa s)"

definition py_float :: "string \<Rightarrow> exn + pyfloat" where
  "py_float s =
     (let (neg, body) = split_sign (lower (num_strip s)) in
      if body = ''inf'' \<or> body = ''infinity'' then Inr (if neg then NInf else PInf)
      else if body = ''nan'' then Inr NaN
      else case decimal body of
             None \<Rightarrow> Inl BuiltinError
           | Some q \<Rightarrow>
               (let v = (if q = 0 then 0 else round_binary64 q) in
                Inr (if out_of_range v then (if neg then NInf else PInf)
                     else if v = 0 then (if neg then NegZero else Fin 0)
                     else Fin (if neg then - v else v))))"

section \<open>Parsing and validation\<close>


definition parse_range :: "string \<Rightarrow> string \<Rightarrow> exn + RangeSpec" where
  "parse_range text unit =
     (let s = filter (\<lambda>c. c \<noteq> CHR '' '') (lower (strip text)) in
      if s = [] then Inl (ValueError ''range is empty'')
      else if strip unit = [] then Inl (ValueError ''unit is empty'')
      else if CHR ''-'' \<in> set s then
        (let (a, b) = split_first CHR ''-'' s in
         case py_float a of Inl e \<Rightarrow> Inl e
         | Inr lo \<Rightarrow> (case py_float b of Inl e \<Rightarrow> Inl e
                      | Inr hi \<Rightarrow> Inr \<lparr>rs_min = lo, rs_max = hi, rs_unit = strip unit\<rparr>))
      else
        (case py_float s of Inl e \<Rightarrow> Inl e
         | Inr lo \<Rightarrow> Inr \<lparr>rs_min = lo, rs_max = lo, rs_unit = strip unit\<rparr>))"

text \<open>
  The range text that \<^verbatim>\<open>action_edit\<close> offers as the default of its range prompt
  (\<^verbatim>\<open>v_def\<close>, \<^verbatim>\<open>i_def\<close>): the bounds without the unit.
\<close>

definition edit_default :: "RangeSpec \<Rightarrow> string" where
  "edit_default r = (if \<not> feq (rs_min r) (rs_max r) then fmt_g (rs_min r) @ ''-'' @ fmt_g (rs_max r)
                     else fmt_g (rs_min r))"

section \<open>Store\<close>





fun next_id_loop :: "int \<Rightarrow> json list \<Rightarrow> int" where
  "next_id_loop m [] = m"
| "next_id_loop m (p # ps) =
     next_id_loop (case read_int p ''id'' 0 of Inl _ \<Rightarrow> m | Inr n \<Rightarrow> max m n) ps"

definition next_id :: "json list \<Rightarrow> int" where
  "next_id parts = next_id_loop 0 parts + 1"

text \<open>
  A \<^verbatim>\<open>Part\<close> built by \<^verbatim>\<open>part_from_dict\<close> holds the values of the stored record as they are:
  the dataclasses do not check the types of their fields, only \<^verbatim>\<open>quantity\<close> is converted.
  (\<^verbatim>\<open>notes\<close> is converted with \<^verbatim>\<open>str\<close>, which cannot fail; no operation modelled here reads
  the notes of a stored part, and the field is left out.)
\<close>

record StoredRange =
  sr_min :: json
  sr_max :: json
  sr_unit :: json

record StoredPart =
  sp_category :: json
  sp_name :: json
  sp_voltage :: StoredRange
  sp_current :: StoredRange
  sp_quantity :: int

text \<open>
  \<^verbatim>\<open>RangeSpec(**v)\<close>: \<open>v\<close> must be a dict whose keys are exactly \<^verbatim>\<open>min\<close>, \<^verbatim>\<open>max\<close> and \<^verbatim>\<open>unit\<close>
  (a missing or an unexpected keyword argument is a \<^verbatim>\<open>TypeError\<close>).
\<close>

fun range_from_json :: "json \<Rightarrow> exn + StoredRange" where
  "range_from_json (JDict d) =
     (case (map_of d ''min'', map_of d ''max'', map_of d ''unit'') of
        (Some lo, Some hi, Some u) \<Rightarrow>
          if list_all (\<lambda>(k, v). k = ''min'' \<or> k = ''max'' \<or> k = ''unit'') d
          then Inr \<lparr>sr_min = lo, sr_max = hi, sr_unit = u\<rparr> else Inl BuiltinError
      | _ \<Rightarrow> Inl BuiltinError)"
| "range_from_json _ = Inl BuiltinError"

fun part_from_dict :: "json \<Rightarrow> exn + StoredPart" where
  "part_from_dict (JDict d) =
     (case dict_item d ''category'' of Inl e \<Rightarrow> Inl e | Inr c \<Rightarrow>
      case dict_item d ''name'' of Inl e \<Rightarrow> Inl e | Inr n \<Rightarrow>
      case dict_item d ''voltage'' of Inl e \<Rightarrow> Inl e | Inr vj \<Rightarrow>
      case range_from_json vj of Inl e \<Rightarrow> Inl e | Inr v \<Rightarrow>
      case dict_item d ''current'' of Inl e \<Rightarrow> Inl e | Inr cj \<Rightarrow>
      case range_from_json cj of Inl e \<Rightarrow> Inl e | Inr i \<Rightarrow>
      case dict_item d ''quantity'' of Inl e \<Rightarrow> Inl e | Inr qj \<Rightarrow>
      case py_int qj of Inl e \<Rightarrow> Inl e | Inr q \<Rightarrow>
        Inr \<lparr>sp_category = c, sp_name = n, sp_voltage = v, sp_current = i, sp_quantity = q\<rparr>)"
| "part_from_dict _ = Inl BuiltinError"

text \<open>
  The methods of a part work when its fields have the declared types and raise
  otherwise: \<^verbatim>\<open>strip\<close> needs a string (\<^verbatim>\<open>AttributeError\<close>), \<^verbatim>\<open><=\<close> and the format code
  \<^verbatim>\<open>g\<close> need numbers (\<^verbatim>\<open>TypeError\<close>, \<^verbatim>\<open>ValueError\<close>).  The format code \<^verbatim>\<open>g\<close> converts an
  integer or boolean bound with \<^verbatim>\<open>float()\<close>, which rounds an integer to binary64 and raises
  \<^verbatim>\<open>OverflowError\<close> for one that is out of range.  \<open>as_range\<close> converts the bounds before
  they are compared, where the code compares the stored numbers and converts them when
  it prints them: the conversion keeps the order of two numbers or makes them equal, and
  then they print the same, so the key is the same text either way, and the code raises
  on a stored range exactly when \<open>as_range\<close> does.
\<close>

definition float_of_int :: "int \<Rightarrow> exn + pyfloat" where
  "float_of_int n =
     (if n = 0 then Inr (Fin 0)
      else (let v = round_binary64 (of_int \<bar>n\<bar>) in
            if out_of_range v then Inl BuiltinError
            else Inr (Fin (if n < 0 then - v else v))))"

fun as_float :: "json \<Rightarrow> exn + pyfloat" where
  "as_float (JFloat x) = Inr x"
| "as_float (JInt n) = float_of_int n"
| "as_float (JBool b) = Inr (Fin (if b then 1 else 0))"
| "as_float _ = Inl BuiltinError"

fun as_str :: "json \<Rightarrow> exn + string" where
  "as_str (JStr s) = Inr s"
| "as_str _ = Inl BuiltinError"

definition as_range :: "StoredRange \<Rightarrow> exn + RangeSpec" where
  "as_range r =
     (case as_float (sr_min r) of Inl e \<Rightarrow> Inl e | Inr lo \<Rightarrow>
      case as_float (sr_max r) of Inl e \<Rightarrow> Inl e | Inr hi \<Rightarrow>
      case as_str (sr_unit r) of Inl e \<Rightarrow> Inl e | Inr u \<Rightarrow>
        Inr \<lparr>rs_min = lo, rs_max = hi, rs_unit = u\<rparr>)"




section \<open>Actions\<close>




text \<open>
  \<^verbatim>\<open>action_show\<close> prints the fields of the part it has decoded, the ranges with
  \<^verbatim>\<open>p.voltage.fmt()\<close> and \<^verbatim>\<open>p.current.fmt()\<close>.  The lines are not modelled, only the part
  shown and whether \<^verbatim>\<open>fmt()\<close> raises, which it does exactly when \<open>as_range\<close> does.
\<close>

datatype show_outcome = Shown StoredPart | ShowNotFound

fun action_show :: "json list \<Rightarrow> int \<Rightarrow> exn + show_outcome" where
  "action_show [] ident = Inr ShowNotFound"
| "action_show (d # rest) ident =
     (case read_int d ''id'' (- 1) of Inl e \<Rightarrow> Inl e | Inr n \<Rightarrow>
        if n = ident then
          (case part_from_dict d of Inl e \<Rightarrow> Inl e | Inr p \<Rightarrow>
           case as_range (sp_voltage p) of Inl e \<Rightarrow> Inl e | Inr _ \<Rightarrow>
           case as_range (sp_current p) of Inl e \<Rightarrow> Inl e | Inr _ \<Rightarrow> Inr (Shown p))
        else action_show rest ident)"

datatype remove_outcome =
  Deleted | DecrementMustBePositive | Decremented int | QuantityHitZero | RemoveNotFound

fun action_remove :: "json list \<Rightarrow> int \<Rightarrow> int option \<Rightarrow> exn + json list \<times> remove_outcome" where
  "action_remove [] ident decrement = Inr ([], RemoveNotFound)"
| "action_remove (d # rest) ident decrement =
     (case read_int d ''id'' (- 1) of Inl e \<Rightarrow> Inl e | Inr n \<Rightarrow>
        if n = ident then
          (case decrement of
             None \<Rightarrow> Inr (rest, Deleted)
           | Some k \<Rightarrow>
               if k \<le> 0 then Inr (d # rest, DecrementMustBePositive)
               else
                 (case read_int d ''quantity'' 0 of Inl e \<Rightarrow> Inl e | Inr q \<Rightarrow>
                    if 0 < q - k then
                      (case d of
                         JDict kv \<Rightarrow> Inr (JDict (dict_set kv ''quantity'' (JInt (q - k))) # rest,
                                           Decremented (q - k))
                       | _ \<Rightarrow> Inl BuiltinError)
                    else Inr (rest, QuantityHitZero)))
        else (case action_remove rest ident decrement of Inl e \<Rightarrow> Inl e
              | Inr (ps, out) \<Rightarrow> Inr (d # ps, out)))"

section \<open>Notions used in the statements\<close>




section \<open>Properties of the string helpers\<close>

lemma last_dropWhile: "dropWhile P xs \<noteq> [] \<Longrightarrow> last (dropWhile P xs) = last xs"
  by (induction xs) (auto split: if_splits)

lemma dropWhile_hd_id: "xs \<noteq> [] \<Longrightarrow> \<not> P (hd xs) \<Longrightarrow> dropWhile P xs = xs"
  by (cases xs) auto

lemma strip_fixed: "no_outer_space t \<Longrightarrow> strip t = t"
proof (cases "t = []")
  case True
  then show ?thesis by (simp add: strip_def)
next
  case False
  assume "no_outer_space t"
  with False have h: "\<not> is_space (hd t)" and l: "\<not> is_space (last t)"
    by (simp_all add: no_outer_space_def)
  from False h have "dropWhile is_space t = t" by (rule dropWhile_hd_id)
  moreover from False l have "dropWhile is_space (rev t) = rev t"
    by (intro dropWhile_hd_id) (simp_all add: hd_rev)
  ultimately show ?thesis by (simp add: strip_def)
qed

lemma strip_no_outer_space: "no_outer_space (strip s)"
proof -
  let ?a = "dropWhile is_space s"
  let ?b = "dropWhile is_space (rev ?a)"
  show ?thesis
  proof (cases "?b = []")
    case True
    then show ?thesis by (simp add: strip_def no_outer_space_def)
  next
    case False
    have a: "?a \<noteq> []"
    proof
      assume "?a = []"
      then have "?b = []" by (simp del: dropWhile_eq_Nil_conv)
      with False show False ..
    qed
    from False have "\<not> is_space (hd ?b)" by (rule hd_dropWhile)
    then have l: "\<not> is_space (last (rev ?b))" using False by (simp add: last_rev)
    have "last ?b = last (rev ?a)" using False by (rule last_dropWhile)
    also have "\<dots> = hd ?a" using a by (simp add: last_rev)
    finally have "hd (rev ?b) = hd ?a" using False by (simp add: hd_rev)
    moreover have "\<not> is_space (hd ?a)" using a by (rule hd_dropWhile)
    ultimately have "\<not> is_space (hd (rev ?b))" by simp
    with l show ?thesis by (simp add: strip_def no_outer_space_def)
  qed
qed

lemma strip_idem: "strip (strip s) = strip s"
  by (rule strip_fixed) (rule strip_no_outer_space)

section \<open>Properties of range normalization\<close>

lemma is_nan_iff: "is_nan x \<longleftrightarrow> x = NaN"
  by (cases x) auto

lemma fle_total: "\<not> is_nan a \<Longrightarrow> \<not> is_nan b \<Longrightarrow> fle a b \<or> fle b a"
  by (auto simp: fle_def)

lemma normalized_min: "rs_min (RangeSpec_normalized r) = (if fle (rs_min r) (rs_max r) then rs_min r else rs_max r)"
  by (simp add: RangeSpec_normalized_def)
lemma normalized_max: "rs_max (RangeSpec_normalized r) = (if fle (rs_min r) (rs_max r) then rs_max r else rs_min r)"
  by (simp add: RangeSpec_normalized_def)
lemma normalized_unit: "rs_unit (RangeSpec_normalized r) = strip (rs_unit r)"
  by (simp add: RangeSpec_normalized_def)

lemma normalized_idem:
  assumes "is_nan (rs_min r) = is_nan (rs_max r)"
  shows "RangeSpec_normalized (RangeSpec_normalized r) = RangeSpec_normalized r"
  using assms by (auto simp: RangeSpec_normalized_def strip_idem fle_def is_nan_iff)

text \<open>
  Claim C9, for ranges whose bounds are not NaN: normalizing twice gives what normalizing
  once gives, the normalized lower bound is at most the upper bound (in the program's
  own \<^verbatim>\<open><=\<close>), and the normalized unit has no leading or trailing whitespace.
  With a NaN bound the comparison \<^verbatim>\<open>self.min <= self.max\<close> is false whichever way round
  the bounds are, so every call swaps them: for the range that \<^verbatim>\<open>parse_range("nan-1", "V")\<close>
  builds, the second normalization undoes the first, and the bounds are never ordered.
\<close>

theorem RangeSpec_normalized_idempotent_ordered:
  assumes "\<not> is_nan (rs_min r)" and "\<not> is_nan (rs_max r)"
  shows "RangeSpec_normalized (RangeSpec_normalized r) = RangeSpec_normalized r
       \<and> fle (rs_min (RangeSpec_normalized r)) (rs_max (RangeSpec_normalized r))
       \<and> no_outer_space (rs_unit (RangeSpec_normalized r))"
proof (intro conjI)
  show "RangeSpec_normalized (RangeSpec_normalized r) = RangeSpec_normalized r"
    using assms by (simp add: normalized_idem)
  show "fle (rs_min (RangeSpec_normalized r)) (rs_max (RangeSpec_normalized r))"
    using fle_total [OF assms] by (auto simp: normalized_min normalized_max)
  show "no_outer_space (rs_unit (RangeSpec_normalized r))"
    by (simp add: normalized_unit strip_no_outer_space)
qed

theorem RangeSpec_normalized_idempotent_ordered_witness:
  "\<not> is_nan (Fin 24) \<and> \<not> is_nan (Fin 1)
   \<and> RangeSpec_normalized \<lparr>rs_min = Fin 24, rs_max = Fin 1, rs_unit = '' V ''\<rparr>
       = \<lparr>rs_min = Fin 1, rs_max = Fin 24, rs_unit = ''V''\<rparr>
   \<and> RangeSpec_normalized \<lparr>rs_min = Fin 1, rs_max = Fin 24, rs_unit = ''V''\<rparr>
       = \<lparr>rs_min = Fin 1, rs_max = Fin 24, rs_unit = ''V''\<rparr>
   \<and> fle (Fin 1) (Fin 24) \<and> no_outer_space ''V''"
proof -
  have n: "RangeSpec_normalized \<lparr>rs_min = Fin 24, rs_max = Fin 1, rs_unit = '' V ''\<rparr>
       = \<lparr>rs_min = Fin 1, rs_max = Fin 24, rs_unit = ''V''\<rparr>"
    by code_simp
  show ?thesis
    using RangeSpec_normalized_idempotent_ordered [of "\<lparr>rs_min = Fin 24, rs_max = Fin 1, rs_unit = '' V ''\<rparr>"]
    by (simp add: n)
qed

theorem RangeSpec_normalized_nan_counterexample:
  "RangeSpec_normalized (RangeSpec_normalized \<lparr>rs_min = NaN, rs_max = Fin 1, rs_unit = ''V''\<rparr>)
     \<noteq> RangeSpec_normalized \<lparr>rs_min = NaN, rs_max = Fin 1, rs_unit = ''V''\<rparr>
   \<and> \<not> fle (rs_min (RangeSpec_normalized \<lparr>rs_min = NaN, rs_max = Fin 1, rs_unit = ''V''\<rparr>))
            (rs_max (RangeSpec_normalized \<lparr>rs_min = NaN, rs_max = Fin 1, rs_unit = ''V''\<rparr>))"
  by (simp add: RangeSpec_normalized_def fle_def)

section \<open>Key form and display form\<close>

lemma length_lower: "length (lower s) = length s"
  by (simp add: lower_def)

text \<open>
  Claim C3, as the code has it: \<^verbatim>\<open>key()\<close> is the lower-cased text \<^verbatim>\<open><min>-<max><unit>\<close> of the
  normalized range whatever the bounds are, and it is the lower-casing of \<^verbatim>\<open>fmt()\<close>
  exactly when the normalized bounds differ.  When they are equal, \<^verbatim>\<open>fmt()\<close> prints the
  single value and \<^verbatim>\<open>key()\<close> still prints both bounds: the range 5..5 V has the display
  form \<^verbatim>\<open>5V\<close> and the key \<^verbatim>\<open>5-5v\<close>.
\<close>

theorem RangeSpec_key_lower_fmt:
  "(let n = RangeSpec_normalized r in
      RangeSpec_key r = lower (fmt_g (rs_min n) @ ''-'' @ fmt_g (rs_max n) @ rs_unit n)
    \<and> (RangeSpec_key r = lower (RangeSpec_fmt r)) = (\<not> feq (rs_min n) (rs_max n)))"
proof -
  let ?n = "RangeSpec_normalized r"
  have k: "RangeSpec_key r = lower (fmt_g (rs_min ?n) @ ''-'' @ fmt_g (rs_max ?n) @ rs_unit ?n)"
    by (simp add: RangeSpec_key_def Let_def)
  have "RangeSpec_key r \<noteq> lower (RangeSpec_fmt r)" if "feq (rs_min ?n) (rs_max ?n)"
  proof
    assume "RangeSpec_key r = lower (RangeSpec_fmt r)"
    then have "length (RangeSpec_key r) = length (lower (RangeSpec_fmt r))" by simp
    with that show False
      by (simp add: k RangeSpec_fmt_def Let_def length_lower)
  qed
  moreover have "RangeSpec_key r = lower (RangeSpec_fmt r)" if "\<not> feq (rs_min ?n) (rs_max ?n)"
    using that by (simp add: k RangeSpec_fmt_def Let_def)
  ultimately show ?thesis using k by (auto simp: Let_def)
qed

theorem RangeSpec_key_lower_fmt_witness:
  "RangeSpec_key \<lparr>rs_min = Fin 24, rs_max = Fin 1, rs_unit = ''V''\<rparr> = ''1-24v''
   \<and> lower (RangeSpec_fmt \<lparr>rs_min = Fin 24, rs_max = Fin 1, rs_unit = ''V''\<rparr>) = ''1-24v''
   \<and> \<not> feq (Fin 1) (Fin 24)"
proof -
  let ?r = "\<lparr>rs_min = Fin 24, rs_max = Fin 1, rs_unit = ''V''\<rparr>"
  have n: "RangeSpec_normalized ?r = \<lparr>rs_min = Fin 1, rs_max = Fin 24, rs_unit = ''V''\<rparr>"
    by code_simp
  have f: "lower (RangeSpec_fmt ?r) = ''1-24v''" by code_simp
  have q: "\<not> feq (Fin 1) (Fin 24)" by (simp add: feq_def)
  from RangeSpec_key_lower_fmt [of ?r, unfolded Let_def, THEN conjunct2]
  have "(RangeSpec_key ?r = lower (RangeSpec_fmt ?r)) = (\<not> feq (Fin 1) (Fin 24))"
    unfolding Let_def n by simp
  with q have "RangeSpec_key ?r = lower (RangeSpec_fmt ?r)" by blast
  with f q show ?thesis by simp
qed

theorem RangeSpec_key_single_value_counterexample:
  "RangeSpec_key \<lparr>rs_min = Fin 5, rs_max = Fin 5, rs_unit = ''V''\<rparr> = ''5-5v''
   \<and> lower (RangeSpec_fmt \<lparr>rs_min = Fin 5, rs_max = Fin 5, rs_unit = ''V''\<rparr>) = ''5v''
   \<and> RangeSpec_key \<lparr>rs_min = Fin 5, rs_max = Fin 5, rs_unit = ''V''\<rparr>
       \<noteq> lower (RangeSpec_fmt \<lparr>rs_min = Fin 5, rs_max = Fin 5, rs_unit = ''V''\<rparr>)"
proof -
  have a: "RangeSpec_key \<lparr>rs_min = Fin 5, rs_max = Fin 5, rs_unit = ''V''\<rparr> = ''5-5v''"
    by code_simp
  have b: "lower (RangeSpec_fmt \<lparr>rs_min = Fin 5, rs_max = Fin 5, rs_unit = ''V''\<rparr>) = ''5v''"
    by code_simp
  show ?thesis by (simp add: a b)
qed

section \<open>The dedupe key\<close>

text \<open>
  Claim C10, for parts in which no range has exactly one NaN bound: the dedupe key of
  the normalized part is the dedupe key of the part.  \<^verbatim>\<open>dedupe_key\<close> normalizes the part
  and \<^verbatim>\<open>key()\<close> normalizes each range once more, so the two sides differ by one more
  normalization of each range; a range with one NaN bound is swapped by every
  normalization, which turns the key \<^verbatim>\<open>nan-1v\<close> into \<^verbatim>\<open>1-nanv\<close>.
\<close>

theorem dedupe_key_normalized:
  assumes "is_nan (rs_min (voltage p)) = is_nan (rs_max (voltage p))"
    and "is_nan (rs_min (current p)) = is_nan (rs_max (current p))"
  shows "dedupe_key (Part_normalized p) = dedupe_key p"
  using assms
  by (simp add: dedupe_key_def Part_normalized_def RangeSpec_key_def Let_def
      strip_idem normalized_idem)

theorem dedupe_key_normalized_witness:
  "is_nan (Fin 24) = is_nan (Fin 1) \<and> is_nan (Fin 0) = is_nan (Fin 2)
   \<and> dedupe_key (Part_normalized
        \<lparr>category = '' Power '', name = ''Buck'',
         voltage = \<lparr>rs_min = Fin 24, rs_max = Fin 1, rs_unit = ''V ''\<rparr>,
         current = \<lparr>rs_min = Fin 0, rs_max = Fin 2, rs_unit = ''A''\<rparr>,
         quantity = 3, p_notes = []\<rparr>)
     = (''power'', ''buck'', ''1-24v'', ''0-2a'')
   \<and> dedupe_key
        \<lparr>category = '' Power '', name = ''Buck'',
         voltage = \<lparr>rs_min = Fin 24, rs_max = Fin 1, rs_unit = ''V ''\<rparr>,
         current = \<lparr>rs_min = Fin 0, rs_max = Fin 2, rs_unit = ''A''\<rparr>,
         quantity = 3, p_notes = []\<rparr>
     = (''power'', ''buck'', ''1-24v'', ''0-2a'')"
proof -
  let ?p = "\<lparr>category = '' Power '', name = ''Buck'',
         voltage = \<lparr>rs_min = Fin 24, rs_max = Fin 1, rs_unit = ''V ''\<rparr>,
         current = \<lparr>rs_min = Fin 0, rs_max = Fin 2, rs_unit = ''A''\<rparr>,
         quantity = 3, p_notes = []\<rparr>"
  have k: "dedupe_key ?p = (''power'', ''buck'', ''1-24v'', ''0-2a'')" by code_simp
  from dedupe_key_normalized [of ?p] have "dedupe_key (Part_normalized ?p) = dedupe_key ?p"
    by simp
  with k show ?thesis by simp
qed

theorem dedupe_key_nan_counterexample:
  "dedupe_key (Part_normalized
        \<lparr>category = ''Power'', name = ''Buck'',
         voltage = \<lparr>rs_min = NaN, rs_max = Fin 1, rs_unit = ''V''\<rparr>,
         current = \<lparr>rs_min = Fin 0, rs_max = Fin 2, rs_unit = ''A''\<rparr>,
         quantity = 3, p_notes = []\<rparr>)
     = (''power'', ''buck'', ''1-nanv'', ''0-2a'')
   \<and> dedupe_key
        \<lparr>category = ''Power'', name = ''Buck'',
         voltage = \<lparr>rs_min = NaN, rs_max = Fin 1, rs_unit = ''V''\<rparr>,
         current = \<lparr>rs_min = Fin 0, rs_max = Fin 2, rs_unit = ''A''\<rparr>,
         quantity = 3, p_notes = []\<rparr>
     = (''power'', ''buck'', ''nan-1v'', ''0-2a'')"
proof -
  have a: "dedupe_key (Part_normalized
        \<lparr>category = ''Power'', name = ''Buck'',
         voltage = \<lparr>rs_min = NaN, rs_max = Fin 1, rs_unit = ''V''\<rparr>,
         current = \<lparr>rs_min = Fin 0, rs_max = Fin 2, rs_unit = ''A''\<rparr>,
         quantity = 3, p_notes = []\<rparr>)
     = (''power'', ''buck'', ''1-nanv'', ''0-2a'')" by code_simp
  have b: "dedupe_key
        \<lparr>category = ''Power'', name = ''Buck'',
         voltage = \<lparr>rs_min = NaN, rs_max = Fin 1, rs_unit = ''V''\<rparr>,
         current = \<lparr>rs_min = Fin 0, rs_max = Fin 2, rs_unit = ''A''\<rparr>,
         quantity = 3, p_notes = []\<rparr>
     = (''power'', ''buck'', ''nan-1v'', ''0-2a'')" by code_simp
  from a b show ?thesis by (rule conjI)
qed

section \<open>Validation\<close>



section \<open>Loading\<close>





section \<open>Parsing a range\<close>

lemma py_float_empty: "py_float [] = Inl BuiltinError"
  by (simp add: py_float_def num_strip_def lower_def split_sign_def decimal_def mantissa_def digitpart_def)

text \<open>
  Claim C5, as the code has it: \<^verbatim>\<open>parse_range\<close> splits the cleaned text at its first \<^verbatim>\<open>-\<close>
  wherever that is.  When the cleaned text starts with \<^verbatim>\<open>-\<close>, the text of the lower bound
  is empty, \<^verbatim>\<open>float('')\<close> raises and \<^verbatim>\<open>parse_range\<close> fails (with \<^verbatim>\<open>unit is empty\<close> when the unit
  is blank, which is checked first): no leading \<^verbatim>\<open>-\<close> is ever read as a sign of the lower
  bound, and \<^verbatim>\<open>-5\<close> gives no range.
\<close>

theorem parse_range_leading_minus:
  assumes "filter (\<lambda>c. c \<noteq> CHR '' '') (lower (strip text)) = CHR ''-'' # rest"
  shows "parse_range text unit
           = Inl (if strip unit = [] then ValueError ''unit is empty'' else BuiltinError)"
  using assms by (simp add: parse_range_def Let_def split_first_def py_float_empty)

theorem parse_range_leading_minus_witness:
  "filter (\<lambda>c. c \<noteq> CHR '' '') (lower (strip ''-5-10'')) = CHR ''-'' # ''5-10''
   \<and> parse_range ''-5-10'' ''V'' = Inl BuiltinError"
proof -
  have h: "filter (\<lambda>c. c \<noteq> CHR '' '') (lower (strip ''-5-10'')) = CHR ''-'' # ''5-10''"
    by code_simp
  have u: "strip ''V'' \<noteq> []" by code_simp
  from parse_range_leading_minus [OF h, of "''V''"] u h show ?thesis by simp
qed

theorem parse_range_minus_five_counterexample:
  "parse_range ''-5'' ''V'' = Inl BuiltinError"
  by code_simp

section \<open>Records with a malformed id\<close>

text \<open>
  Claim C7 at a database whose first record has the id \<^verbatim>\<open>"abc"\<close> and whose second record
  is well formed with id 1.  The id scan of \<^verbatim>\<open>next_id\<close> steps over the first record, and
  \<^verbatim>\<open>show 1\<close> on the second record alone finds it; but the loops of \<^verbatim>\<open>action_show\<close> and
  \<^verbatim>\<open>action_remove\<close> call \<^verbatim>\<open>int(d.get("id", -1))\<close> outside any \<^verbatim>\<open>try\<close>, so \<^verbatim>\<open>show 1\<close> and
  \<^verbatim>\<open>remove 1\<close> raise at the first record and never reach the second.
\<close>

theorem non_numeric_id_raises:
  "(let good = JDict [(''id'', JInt 1), (''category'', JStr ''Sensor''), (''name'', JStr ''DHT22''),
        (''voltage'', JDict [(''min'', JInt 3), (''max'', JInt 5), (''unit'', JStr ''V'')]),
        (''current'', JDict [(''min'', JInt 0), (''max'', JInt 1), (''unit'', JStr ''A'')]),
        (''quantity'', JInt 2), (''notes'', JStr [])];
       bad = JDict [(''id'', JStr ''abc''), (''category'', JStr ''Sensor''), (''name'', JStr ''BME280''),
        (''voltage'', JDict [(''min'', JInt 3), (''max'', JInt 5), (''unit'', JStr ''V'')]),
        (''current'', JDict [(''min'', JInt 0), (''max'', JInt 1), (''unit'', JStr ''A'')]),
        (''quantity'', JInt 4), (''notes'', JStr [])]
    in next_id [bad, good] = 2
     \<and> action_show [good] 1 = Inr (Shown
          \<lparr>sp_category = JStr ''Sensor'', sp_name = JStr ''DHT22'',
           sp_voltage = \<lparr>sr_min = JInt 3, sr_max = JInt 5, sr_unit = JStr ''V''\<rparr>,
           sp_current = \<lparr>sr_min = JInt 0, sr_max = JInt 1, sr_unit = JStr ''A''\<rparr>,
           sp_quantity = 2\<rparr>)
     \<and> action_show [bad, good] 1 = Inl BuiltinError
     \<and> action_remove [bad, good] 1 None = Inl BuiltinError
     \<and> action_remove [bad, good] 1 (Some 1) = Inl BuiltinError)"
  by code_simp

section \<open>Removing with a decrement\<close>

lemma read_int_dict: "read_int d k dflt = Inr n \<Longrightarrow> \<exists>kv. d = JDict kv"
  by (cases d) (simp_all add: read_int_def)

lemma action_remove_skip:
  assumes "\<forall>p \<in> set pre. \<exists>i. read_int p ''id'' (- 1) = Inr i \<and> i \<noteq> ident"
  shows "action_remove (pre @ rest) ident dec =
           (case action_remove rest ident dec of Inl e \<Rightarrow> Inl e
            | Inr (ps, out) \<Rightarrow> Inr (pre @ ps, out))"
  using assms
proof (induction pre)
  case Nil
  show ?case by (simp split: sum.splits)
next
  case (Cons p pre)
  then obtain i where i: "read_int p ''id'' (- 1) = Inr i" "i \<noteq> ident" by auto
  from Cons have "action_remove (pre @ rest) ident dec =
           (case action_remove rest ident dec of Inl e \<Rightarrow> Inl e
            | Inr (ps, out) \<Rightarrow> Inr (pre @ ps, out))" by simp
  with i show ?case by (simp split: sum.splits)
qed

text \<open>
  Where the scan reaches the requested record: the records before it have readable ids
  different from the requested one, and \<open>q\<close> is the record's quantity as
  \<^verbatim>\<open>int(d.get("quantity", 0))\<close> reads it.  With a decrement \<open>n\<close>, \<^verbatim>\<open>action_remove\<close> leaves the
  list unchanged and prints the usage message when \<open>n \<le> 0\<close>; otherwise it stores \<open>q - n\<close> in
  that record when \<open>q - n > 0\<close>, and removes the record when \<open>q - n \<le> 0\<close>.
\<close>

lemma action_remove_decrement:
  assumes "\<forall>p \<in> set pre. \<exists>i. read_int p ''id'' (- 1) = Inr i \<and> i \<noteq> ident"
    and "read_int (JDict kv) ''id'' (- 1) = Inr ident"
    and "read_int (JDict kv) ''quantity'' 0 = Inr q"
  shows "action_remove (pre @ JDict kv # post) ident (Some n) =
           (if n \<le> 0 then Inr (pre @ JDict kv # post, DecrementMustBePositive)
            else if 0 < q - n
              then Inr (pre @ JDict (dict_set kv ''quantity'' (JInt (q - n))) # post,
                        Decremented (q - n))
            else Inr (pre @ post, QuantityHitZero))"
  using assms(2,3) by (simp add: action_remove_skip [OF assms(1)])

text \<open>
  Claim C2 at a database that contains the requested record, with id 1 and quantity 8,
  behind a record whose id is \<^verbatim>\<open>"abc"\<close>.  On the requested record alone, \<^verbatim>\<open>remove 1\<close> with the
  decrements 0, 3 and 8 prints the usage message, stores the quantity 5 and removes the
  record, as the claim says.  With the other record in front, the loop of \<^verbatim>\<open>action_remove\<close>
  calls \<^verbatim>\<open>int(d.get("id", -1))\<close> on it outside any \<^verbatim>\<open>try\<close>, and each of the three commands
  raises there: no usage message is printed, nothing is decremented and nothing is
  removed, although the database contains the record.
\<close>

theorem action_remove_decrement_unreached:
  "(let good = JDict [(''id'', JInt 1), (''name'', JStr ''10k''), (''quantity'', JInt 8)];
        bad = JDict [(''id'', JStr ''abc''), (''name'', JStr ''22k''), (''quantity'', JInt 4)]
    in action_remove [good] 1 (Some 0) = Inr ([good], DecrementMustBePositive)
     \<and> action_remove [good] 1 (Some 3)
         = Inr ([JDict [(''id'', JInt 1), (''name'', JStr ''10k''), (''quantity'', JInt 5)]],
                Decremented 5)
     \<and> action_remove [good] 1 (Some 8) = Inr ([], QuantityHitZero)
     \<and> action_remove [bad, good] 1 (Some 0) = Inl BuiltinError
     \<and> action_remove [bad, good] 1 (Some 3) = Inl BuiltinError
     \<and> action_remove [bad, good] 1 (Some 8) = Inl BuiltinError)"
  by code_simp

section \<open>Adding a part\<close>









section \<open>Formatting and parsing a range\<close>

lemma plain_char:
  "c \<in> set ''0123456789.e+-infa'' \<Longrightarrow> \<not> is_space c \<and> lower_char c = c \<and> c \<noteq> CHR '' ''"
  by (auto simp: is_space_def lower_char_def)

lemma plain_clean:
  assumes "plain t"
  shows "filter (\<lambda>c. c \<noteq> CHR '' '') (lower (strip t)) = t"
proof -
  from assms have a: "\<And>c. c \<in> set t \<Longrightarrow> \<not> is_space c \<and> lower_char c = c \<and> c \<noteq> CHR '' ''"
    using plain_char by (auto simp: plain_def list_all_iff)
  have "no_outer_space t"
    using a by (cases "t = []") (auto simp: no_outer_space_def)
  then have "strip t = t" by (rule strip_fixed)
  moreover have "lower t = t" using a by (simp add: lower_def map_idI)
  moreover have "filter (\<lambda>c. c \<noteq> CHR '' '') t = t" using a by (simp add: filter_id_conv)
  ultimately show ?thesis by simp
qed

lemma digit_char_values:
  "digit_char 0 = CHR ''0''" "digit_char 1 = CHR ''1''" "digit_char 2 = CHR ''2''"
  "digit_char 3 = CHR ''3''" "digit_char 4 = CHR ''4''" "digit_char 5 = CHR ''5''"
  "digit_char 6 = CHR ''6''" "digit_char 7 = CHR ''7''" "digit_char 8 = CHR ''8''"
  "digit_char 9 = CHR ''9''"
  by code_simp+

lemma digit_char_plain: "0 \<le> d \<Longrightarrow> d < 10 \<Longrightarrow> digit_char d \<in> set ''0123456789''"
proof -
  assume "0 \<le> d" "d < 10"
  then have "d = 0 \<or> d = 1 \<or> d = 2 \<or> d = 3 \<or> d = 4 \<or> d = 5 \<or> d = 6 \<or> d = 7 \<or> d = 8 \<or> d = 9"
    by arith
  then show ?thesis
    by (elim disjE) (simp_all add: digit_char_values)
qed

lemma set_str_nat: "0 \<le> n \<Longrightarrow> set (str_nat n) \<subseteq> set ''0123456789''"
proof (induction n rule: str_nat.induct)
  case (1 n)
  show ?case
  proof (cases "n < 10")
    case True
    with 1 digit_char_plain [of n] show ?thesis
      by (subst str_nat.simps) simp
  next
    case False
    with 1 have ih: "set (str_nat (n div 10)) \<subseteq> set ''0123456789''" by simp
    have "digit_char (n mod 10) \<in> set ''0123456789''"
      by (rule digit_char_plain) simp_all
    with ih False show ?thesis
      by (subst str_nat.simps) simp
  qed
qed

lemma plain_append: "plain (a @ b) \<longleftrightarrow> plain a \<and> plain b"
  by (simp add: plain_def)

lemma plain_Nil: "plain []"
  by (simp add: plain_def)

lemma plain_Cons: "plain (c # s) \<longleftrightarrow> c \<in> set ''0123456789.e+-infa'' \<and> plain s"
  by (simp add: plain_def)

lemma digits_plain:
  assumes "set s \<subseteq> set ''0123456789''"
  shows "plain s"
proof -
  have "set ''0123456789'' \<subseteq> set ''0123456789.e+-infa''" by simp
  with assms have "set s \<subseteq> set ''0123456789.e+-infa''" by (rule subset_trans)
  then show ?thesis by (simp only: plain_def list_all_iff subset_eq)
qed

lemma set_strip_zeros: "set (strip_zeros s) \<subseteq> set s"
proof
  fix x
  assume "x \<in> set (strip_zeros s)"
  then have "x \<in> set (dropWhile (\<lambda>c. c = CHR ''0'') (rev s))"
    by (simp add: strip_zeros_def)
  then have "x \<in> set (rev s)" by (rule set_dropWhileD)
  then show "x \<in> set s" by simp
qed

lemma plain_str_nat:
  assumes "0 \<le> n"
  shows "plain (str_nat n)" "plain (take k (str_nat n))"
    "plain (strip_zeros (drop k (str_nat n)))" "plain (strip_zeros (str_nat n))"
proof -
  note d = set_str_nat [OF assms]
  show "plain (str_nat n)" using d by (rule digits_plain)
  show "plain (take k (str_nat n))"
    using d set_take_subset [of k "str_nat n"] by (intro digits_plain) blast
  show "plain (strip_zeros (drop k (str_nat n)))"
    using d set_drop_subset [of k "str_nat n"] set_strip_zeros [of "drop k (str_nat n)"]
    by (intro digits_plain) blast
  show "plain (strip_zeros (str_nat n))"
    using d set_strip_zeros [of "str_nat n"] by (intro digits_plain) blast
qed

lemma plain_with_point: "plain a \<Longrightarrow> plain b \<Longrightarrow> plain (with_point a b)"
  by (simp add: with_point_def plain_def)

lemma plain_exp_digits: "0 \<le> m \<Longrightarrow> plain (exp_digits m)"
  using plain_str_nat(1) [of m] by (simp add: exp_digits_def plain_def)

lemma round_half_even_nonneg: "0 \<le> x \<Longrightarrow> 0 \<le> round_half_even x"
  by (simp add: round_half_even_def Let_def)

lemma pow10_pos: "0 < pow10 k"
  by (simp add: pow10_def)

lemma plain_fmt_g_pos:
  assumes "0 < q"
  shows "plain (fmt_g_pos q)"
proof -
  define n0 where "n0 = round_half_even (q * pow10 (5 - dec_exp q))"
  define n where "n = (if 10 ^ 6 \<le> n0 then 10 ^ 5 else n0)"
  define e where "e = (if 10 ^ 6 \<le> n0 then dec_exp q + 1 else dec_exp q)"
  have "0 \<le> q * pow10 (5 - dec_exp q)"
    using assms pow10_pos [of "5 - dec_exp q"] by simp
  then have "0 \<le> n0" unfolding n0_def by (rule round_half_even_nonneg)
  then have n: "0 \<le> n" by (simp add: n_def)
  have f: "fmt_g_pos q =
     (if - 4 \<le> e \<and> e < 6 then
           (if 0 \<le> e then with_point (take (nat e + 1) (str_nat n)) (strip_zeros (drop (nat e + 1) (str_nat n)))
            else ''0.'' @ replicate (nat (- e - 1)) CHR ''0'' @ strip_zeros (str_nat n))
         else with_point (take 1 (str_nat n)) (strip_zeros (drop 1 (str_nat n))) @ ''e''
              @ (if e < 0 then ''-'' else ''+'') @ exp_digits \<bar>e\<bar>)"
    by (simp only: fmt_g_pos_def Let_def n0_def n_def e_def)
  have z: "plain (replicate k CHR ''0'')" for k
    by (simp add: plain_def list_all_iff)
  have l: "plain ''0.''" "plain ''e''" "plain ''-''" "plain ''+''"
    by (simp_all add: plain_def)
  have x: "plain (exp_digits \<bar>e\<bar>)" by (rule plain_exp_digits) simp
  have 1: "plain (with_point (take k (str_nat n)) (strip_zeros (drop k (str_nat n))))" for k
    using plain_str_nat [OF n] by (intro plain_with_point)
  have 2: "plain (''0.'' @ replicate k CHR ''0'' @ strip_zeros (str_nat n))" for k
    using plain_str_nat(4) [OF n] z [of k] by (simp add: plain_append plain_Cons plain_Nil)
  have 3: "plain (with_point (take 1 (str_nat n)) (strip_zeros (drop 1 (str_nat n))) @ ''e''
              @ (if e < 0 then ''-'' else ''+'') @ exp_digits \<bar>e\<bar>)"
    using 1 [of 1] x by (simp add: plain_append plain_Cons plain_Nil)
  show ?thesis
    unfolding f using 1 2 3 by (simp only: simp_thms split: if_split)
qed

lemma plain_fmt_g: "plain (fmt_g x)"
proof (cases x)
  case (Fin q)
  have "plain ''0''" by (simp add: plain_def)
  moreover have "q < 0 \<Longrightarrow> plain (CHR ''-'' # fmt_g_pos (- q))"
    using plain_fmt_g_pos [of "- q"] by (simp add: plain_def)
  moreover have "0 < q \<Longrightarrow> plain (fmt_g_pos q)" by (rule plain_fmt_g_pos)
  ultimately show ?thesis using Fin by (cases "q = 0"; cases "q < 0") auto
qed (simp_all add: plain_def)

lemma split_first_append:
  "c \<notin> set a \<Longrightarrow> split_first c (a @ c # b) = (a, b)"
  by (induction a) (auto simp: split_first_def)

lemma feq_eq: "feq a b \<Longrightarrow> a \<noteq> NegZero \<Longrightarrow> b \<noteq> NegZero \<Longrightarrow> a = b"
  by (cases a; cases b) (simp_all add: feq_def)

text \<open>
  Claim C4, as the code has it.  \<^verbatim>\<open>fmt()\<close> ends its text with the unit, and \<^verbatim>\<open>parse_range\<close>
  does not remove a unit: it passes the text after the first \<^verbatim>\<open>-\<close> (or the whole text) to
  \<^verbatim>\<open>float()\<close>, which rejects it, so \<^verbatim>\<open>parse_range(r.normalized().fmt(), r.unit)\<close> fails on
  the range 1-24 V.  What parses back is the text of \<^verbatim>\<open>fmt()\<close> without the unit, which is the
  default that \<^verbatim>\<open>action_edit\<close> offers (\<open>edit_default\<close>).  For a range \<open>r\<close> without a NaN bound
  and its normalization \<open>n\<close>, \<^verbatim>\<open>n.fmt()\<close> is that text followed by the unit, and parsing that
  text with the unit of \<open>r\<close> gives \<open>n\<close>, provided that \<^verbatim>\<open>float()\<close> reads each bound back from
  the text that the format code \<^verbatim>\<open>g\<close> prints for it (it prints six significant digits:
  1234567 is printed as \<^verbatim>\<open>1.23457e+06\<close> and read back as 1234570), that the text of the lower
  bound has no \<^verbatim>\<open>-\<close> (the text is split at its first \<^verbatim>\<open>-\<close>, and a lower bound printed as
  \<^verbatim>\<open>7.62939e-06\<close> is cut in two), that the upper bound is not the negative zero, and that
  the unit is not blank.
\<close>

theorem fmt_without_unit_round_trip:
  assumes n: "n = RangeSpec_normalized r"
    and nn: "\<not> is_nan (rs_min r)" "\<not> is_nan (rs_max r)"
    and lo: "py_float (fmt_g (rs_min n)) = Inr (rs_min n)"
    and hi: "py_float (fmt_g (rs_max n)) = Inr (rs_max n)"
    and nm: "CHR ''-'' \<notin> set (fmt_g (rs_min n))"
    and nz: "rs_max n \<noteq> NegZero"
    and u: "rs_unit n \<noteq> []"
  shows "RangeSpec_fmt n = edit_default n @ rs_unit n
       \<and> parse_range (edit_default n) (rs_unit r) = Inr n"
proof
  have "RangeSpec_normalized n = n"
    unfolding n using nn by (intro normalized_idem) (simp add: is_nan_iff)
  then show "RangeSpec_fmt n = edit_default n @ rs_unit n"
    by (simp add: RangeSpec_fmt_def edit_default_def Let_def)
next
  let ?a = "fmt_g (rs_min n)"
  let ?b = "fmt_g (rs_max n)"
  have su: "strip (rs_unit r) = rs_unit n" by (simp add: n normalized_unit)
  have ne: "?a \<noteq> []" using lo py_float_empty by auto
  show "parse_range (edit_default n) (rs_unit r) = Inr n"
  proof (cases "feq (rs_min n) (rs_max n)")
    case False
    have "plain (?a @ CHR ''-'' # ?b)"
      using plain_fmt_g [of "rs_min n"] plain_fmt_g [of "rs_max n"] by (simp add: plain_def)
    then have c: "filter (\<lambda>c. c \<noteq> CHR '' '') (lower (strip (?a @ CHR ''-'' # ?b))) = ?a @ CHR ''-'' # ?b"
      by (rule plain_clean)
    have "parse_range (?a @ CHR ''-'' # ?b) (rs_unit r)
            = Inr \<lparr>rs_min = rs_min n, rs_max = rs_max n, rs_unit = rs_unit n\<rparr>"
      unfolding parse_range_def c Let_def su
      using u lo hi by (simp add: split_first_append [OF nm])
    with False show ?thesis by (simp add: edit_default_def)
  next
    case True
    have c: "filter (\<lambda>c. c \<noteq> CHR '' '') (lower (strip ?a)) = ?a"
      using plain_fmt_g by (rule plain_clean)
    have "rs_min n \<noteq> NegZero" using nm by auto
    with True nz have eq: "rs_max n = rs_min n" using feq_eq [of "rs_min n" "rs_max n"] by simp
    have "parse_range ?a (rs_unit r)
            = Inr \<lparr>rs_min = rs_min n, rs_max = rs_min n, rs_unit = rs_unit n\<rparr>"
      unfolding parse_range_def c Let_def su
      using u lo nm ne by simp
    with True eq show ?thesis by (simp add: edit_default_def)
  qed
qed

theorem fmt_without_unit_round_trip_witness:
  "(let r = \<lparr>rs_min = Fin 24, rs_max = Fin 1, rs_unit = '' V ''\<rparr>;
        n = \<lparr>rs_min = Fin 1, rs_max = Fin 24, rs_unit = ''V''\<rparr>
    in RangeSpec_normalized r = n
     \<and> RangeSpec_fmt n = ''1-24'' @ ''V''
     \<and> parse_range ''1-24'' (rs_unit r) = Inr n)
 \<and> (let r = \<lparr>rs_min = Fin (1 / 2), rs_max = Fin (1 / 2), rs_unit = ''A''\<rparr>
    in RangeSpec_normalized r = r
     \<and> RangeSpec_fmt r = ''0.5'' @ ''A''
     \<and> parse_range ''0.5'' (rs_unit r) = Inr r)"
proof -
  let ?r = "\<lparr>rs_min = Fin 24, rs_max = Fin 1, rs_unit = '' V ''\<rparr>"
  let ?n = "\<lparr>rs_min = Fin 1, rs_max = Fin 24, rs_unit = ''V''\<rparr>"
  let ?s = "\<lparr>rs_min = Fin (1 / 2), rs_max = Fin (1 / 2), rs_unit = ''A''\<rparr>"
  have n: "?n = RangeSpec_normalized ?r" by code_simp
  have nn: "\<not> is_nan (rs_min ?r)" "\<not> is_nan (rs_max ?r)" by simp_all
  have lo: "py_float (fmt_g (rs_min ?n)) = Inr (rs_min ?n)" by code_simp
  have hi: "py_float (fmt_g (rs_max ?n)) = Inr (rs_max ?n)" by code_simp
  have nm: "CHR ''-'' \<notin> set (fmt_g (rs_min ?n))" by code_simp
  have nz: "rs_max ?n \<noteq> NegZero" by simp
  have u: "rs_unit ?n \<noteq> []" by simp
  have e1: "edit_default ?n = ''1-24''" by code_simp
  note a = fmt_without_unit_round_trip [OF n nn lo hi nm nz u]
  have s: "?s = RangeSpec_normalized ?s" by code_simp
  have nn': "\<not> is_nan (rs_min ?s)" "\<not> is_nan (rs_max ?s)" by simp_all
  have lo': "py_float (fmt_g (rs_min ?s)) = Inr (rs_min ?s)" by code_simp
  have hi': "py_float (fmt_g (rs_max ?s)) = Inr (rs_max ?s)" by code_simp
  have nm': "CHR ''-'' \<notin> set (fmt_g (rs_min ?s))" by code_simp
  have nz': "rs_max ?s \<noteq> NegZero" by simp
  have u': "rs_unit ?s \<noteq> []" by simp
  have e2: "edit_default ?s = ''0.5''" by code_simp
  note b = fmt_without_unit_round_trip [OF s nn' lo' hi' nm' nz' u']
  from a b n [symmetric] s [symmetric] show ?thesis
    unfolding Let_def e1 e2 by simp
qed

theorem parse_range_fmt_counterexample:
  "(let r = \<lparr>rs_min = Fin 1, rs_max = Fin 24, rs_unit = ''V''\<rparr>
    in RangeSpec_normalized r = r
     \<and> RangeSpec_fmt (RangeSpec_normalized r) = ''1-24V''
     \<and> parse_range (RangeSpec_fmt (RangeSpec_normalized r)) (rs_unit r) = Inl BuiltinError)
 \<and> (let r = \<lparr>rs_min = Fin 0, rs_max = Fin 1234567, rs_unit = ''V''\<rparr>
    in RangeSpec_normalized r = r
     \<and> edit_default r = ''0-1.23457e+06''
     \<and> parse_range (edit_default r) (rs_unit r)
          = Inr \<lparr>rs_min = Fin 0, rs_max = Fin 1234570, rs_unit = ''V''\<rparr>)
 \<and> (let r = \<lparr>rs_min = Fin (1 / 131072), rs_max = Fin 1, rs_unit = ''V''\<rparr>
    in RangeSpec_normalized r = r
     \<and> edit_default r = ''7.62939e-06-1''
     \<and> parse_range (edit_default r) (rs_unit r) = Inl BuiltinError)"
  by code_simp

end
